theory Spec2Isabelle
  imports Complex_Main
begin

section \<open>Shared types (server/utils/alertUtils.ts, shared/schema.ts)\<close>

text \<open>
  A JavaScript number is modelled by the real number it stands for; the infinities are
  not modelled. Comparisons are exact. The rounding of arithmetic matters in one place,
  \<open>calculateDistance\<close>, which takes the arithmetic of the platform as a parameter. NaN
  is modelled where the code can compute it from finite numbers: the mean of an empty
  ring (see \<open>num_text\<close>) and the square root of a negative number in the distance.
\<close>

datatype DisasterType = Earthquake | Flood | Storm | Wildfire

datatype AlertType = Warning | Watch | Advisory

text \<open>
  The \<open>latitude\<close> and \<open>longitude\<close> columns of a disaster are strings. The adapters fill
  them with \<open>number.toString()\<close>; the filters read them with \<open>!s\<close> (true on the empty
  string only) and \<open>parseFloat(s)\<close>. \<open>NumText x\<close> is the decimal text of the number \<open>x\<close>,
  \<open>NaNText\<close> the text \<open>"NaN"\<close>, \<open>EmptyText\<close> the empty (missing) string.
\<close>

datatype num_text = EmptyText | NaNText | NumText real

text \<open>
  The record keeps the columns the filters read and the ones that tell the events
  apart; \<open>id\<close>, \<open>title\<close>, \<open>description\<close>, \<open>timestamp\<close>, \<open>validUntil\<close> and \<open>data\<close> are
  built by number and date formatting and are read by no operation modelled here.
\<close>

record Disaster =
  disasterType :: DisasterType
  alertType :: AlertType
  location :: string
  latitude :: num_text
  longitude :: num_text
  source :: string

text \<open>\<open>parseFloat\<close>; \<open>None\<close> is NaN.\<close>

definition parseFloat :: "num_text \<Rightarrow> real option" where
  "parseFloat s = (case s of EmptyText \<Rightarrow> None | NaNText \<Rightarrow> None | NumText x \<Rightarrow> Some x)"

text \<open>Truthiness of an optional number: \<open>undefined\<close> and \<open>0\<close> are falsy.\<close>

definition truthy :: "real option \<Rightarrow> bool" where
  "truthy v = (case v of None \<Rightarrow> False | Some x \<Rightarrow> x \<noteq> 0)"

text \<open>Severity order of the alert levels, Warning > Watch > Advisory.\<close>

fun severityRank :: "AlertType \<Rightarrow> nat" where
  "severityRank Advisory = 0"
| "severityRank Watch = 1"
| "severityRank Warning = 2"

definition mapTimeRangeToValue :: "string \<Rightarrow> string" where
  "mapTimeRangeToValue timeRange =
     (if timeRange = ''1h'' \<or> timeRange = ''hour'' then ''hour''
      else if timeRange = ''24h'' \<or> timeRange = ''1d'' \<or> timeRange = ''1day'' then ''1day''
      else if timeRange = ''7d'' \<or> timeRange = ''7days'' \<or> timeRange = ''week'' then ''7days''
      else if timeRange = ''30d'' \<or> timeRange = ''30days'' \<or> timeRange = ''month'' then ''30days''
      else ''1day'')"

section \<open>Exceptions and upstream responses\<close>

text \<open>
  What \<open>axios.get\<close> meets: a network failure or a non-2xx status (both make it throw), or
  a body. Whether a body that lacks declared parts makes the call fail is decided by the
  mapping function that reads it: it raises a TypeError exactly where it dereferences a
  value that is not there. The bodies of the three feeds are therefore modelled twice:
  as records of the declared interface, and as JSON records (suffix \<open>_json\<close>) in which
  the parts the mapping functions dereference may be absent.
\<close>

datatype failure = NetworkFailure | BadStatus nat

datatype 'a response = Failed failure | Ok 'a

datatype exn = AxiosError failure | TypeError | Error string

text \<open>The body of a \<open>try\<close> block: \<open>const response = await axios.get(..); return f(response.data)\<close>.\<close>

definition get_then :: "'a response \<Rightarrow> ('a \<Rightarrow> exn + 'b) \<Rightarrow> exn + 'b" where
  "get_then r f = (case r of Failed e \<Rightarrow> Inl (AxiosError e) | Ok d \<Rightarrow> f d)"

text \<open>\<open>Array.prototype.map\<close> with a callback that may throw.\<close>

fun map_exn :: "('a \<Rightarrow> exn + 'b) \<Rightarrow> 'a list \<Rightarrow> exn + 'b list" where
  "map_exn f [] = Inr []"
| "map_exn f (x # xs) =
     (case f x of
        Inl e \<Rightarrow> Inl e
      | Inr y \<Rightarrow> (case map_exn f xs of Inl e \<Rightarrow> Inl e | Inr ys \<Rightarrow> Inr (y # ys)))"

text \<open>\<open>Array.prototype.filter\<close> with a callback that may throw.\<close>

fun filter_exn :: "('a \<Rightarrow> exn + bool) \<Rightarrow> 'a list \<Rightarrow> exn + 'a list" where
  "filter_exn p [] = Inr []"
| "filter_exn p (x # xs) =
     (case p x of
        Inl e \<Rightarrow> Inl e
      | Inr b \<Rightarrow>
          (case filter_exn p xs of
             Inl e \<Rightarrow> Inl e
           | Inr ys \<Rightarrow> Inr (if b then x # ys else ys)))"

section \<open>Strings\<close>

text \<open>
  Strings are ASCII: \<open>toLowerCase\<close> maps the 26 capital letters and leaves every other
  character unchanged.
\<close>

definition lower_char :: "char \<Rightarrow> char" where
  "lower_char c =
     (case map_of (zip ''ABCDEFGHIJKLMNOPQRSTUVWXYZ'' ''abcdefghijklmnopqrstuvwxyz'') c of
        None \<Rightarrow> c
      | Some l \<Rightarrow> l)"

definition toLowerCase :: "string \<Rightarrow> string" where
  "toLowerCase s = map lower_char s"

fun startsWith :: "string \<Rightarrow> string \<Rightarrow> bool" where
  "startsWith s [] = True"
| "startsWith [] (y # ys) = False"
| "startsWith (x # xs) (y # ys) = (x = y \<and> startsWith xs ys)"

text \<open>\<open>s.includes(t)\<close>: \<open>t\<close> occurs in \<open>s\<close> as a contiguous substring.\<close>

fun includes_str :: "string \<Rightarrow> string \<Rightarrow> bool" where
  "includes_str [] t = startsWith [] t"
| "includes_str (x # xs) t = (startsWith (x # xs) t \<or> includes_str xs t)"

text \<open>\<open>s.replace(c, r)\<close> with a one-character string pattern: the first occurrence only.\<close>

fun replace :: "char \<Rightarrow> string \<Rightarrow> string \<Rightarrow> string" where
  "replace c r [] = []"
| "replace c r (x # xs) = (if x = c then r @ xs else x # replace c r xs)"

section \<open>Haversine distance (calculateDistance in index.ts, noaa.ts and usgs.ts)\<close>

text \<open>The two-argument arctangent of exact arithmetic.\<close>

definition atan2 :: "real \<Rightarrow> real \<Rightarrow> real" where
  "atan2 y x =
     (if 0 < x then arctan (y / x)
      else if x < 0 then (if 0 \<le> y then arctan (y / x) + pi else arctan (y / x) - pi)
      else if 0 < y then pi / 2
      else if y < 0 then - (pi / 2)
      else 0)"

text \<open>
  The source computes the distance in IEEE doubles. The arithmetic of the platform is
  a parameter of the model: \<open>rnd\<close> rounds the exact result of \<open>+\<close>, \<open>-\<close>, \<open>*\<close> and \<open>/\<close> to
  a double, and the \<open>Math\<close> functions are the platform's. A double is modelled by the
  real number it stands for; NaN is the value \<open>None\<close> of the result.
\<close>

record arithmetic =
  rnd :: "real \<Rightarrow> real"
  Math_sin :: "real \<Rightarrow> real"
  Math_cos :: "real \<Rightarrow> real"
  Math_sqrt :: "real \<Rightarrow> real"
  Math_atan2 :: "real \<Rightarrow> real \<Rightarrow> real"
  Math_PI :: real

text \<open>Arithmetic without rounding.\<close>

definition exact_arithmetic :: arithmetic where
  "exact_arithmetic =
     \<lparr> rnd = (\<lambda>x. x), Math_sin = sin, Math_cos = cos, Math_sqrt = sqrt,
       Math_atan2 = atan2, Math_PI = pi \<rparr>"

text \<open>
  \<open>calculateDistance\<close>, every operation rounded. \<open>Math.sqrt\<close> of a negative number is
  NaN, and NaN then passes through \<open>Math.atan2\<close> and the two products to the result.
\<close>

definition calculateDistance :: "arithmetic \<Rightarrow> real \<Rightarrow> real \<Rightarrow> real \<Rightarrow> real \<Rightarrow> real option" where
  "calculateDistance m lat1 lon1 lat2 lon2 =
     (let R = 6371;
          dLat = rnd m (rnd m (rnd m (lat2 - lat1) * Math_PI m) / 180);
          dLon = rnd m (rnd m (rnd m (lon2 - lon1) * Math_PI m) / 180);
          a = rnd m
                (rnd m (Math_sin m (rnd m (dLat / 2)) * Math_sin m (rnd m (dLat / 2))) +
                 rnd m
                   (rnd m
                      (rnd m
                         (Math_cos m (rnd m (rnd m (lat1 * Math_PI m) / 180)) *
                          Math_cos m (rnd m (rnd m (lat2 * Math_PI m) / 180))) *
                       Math_sin m (rnd m (dLon / 2))) *
                    Math_sin m (rnd m (dLon / 2))))
      in if a < 0 \<or> rnd m (1 - a) < 0 then None
         else (let c = rnd m (2 * Math_atan2 m (Math_sqrt m a) (Math_sqrt m (rnd m (1 - a))))
               in Some (rnd m (R * c))))"

text \<open>The value of the local \<open>a\<close> in exact arithmetic.\<close>

definition haversine_a :: "real \<Rightarrow> real \<Rightarrow> real \<Rightarrow> real \<Rightarrow> real" where
  "haversine_a lat1 lon1 lat2 lon2 =
     (let dLat = (lat2 - lat1) * pi / 180;
          dLon = (lon2 - lon1) * pi / 180
      in sin (dLat / 2) * sin (dLat / 2) +
         cos (lat1 * pi / 180) * cos (lat2 * pi / 180) *
         sin (dLon / 2) * sin (dLon / 2))"

section \<open>Seismic adapter (usgs.ts)\<close>

definition MAGNITUDE_WARNING_THRESHOLD :: real where
  "MAGNITUDE_WARNING_THRESHOLD = 5.0"

definition MAGNITUDE_WATCH_THRESHOLD :: real where
  "MAGNITUDE_WATCH_THRESHOLD = 4.0"

text \<open>\<open>coordinates\<close> is the triple (longitude, latitude, depth).\<close>

record USGSFeature =
  mag :: real
  place :: string
  coordinates :: "real \<times> real \<times> real"

record USGSResponse =
  usgs_features :: "USGSFeature list"

text \<open>The callback of \<open>data.features.map\<close> in \<open>mapUSGSResponseToDisasters\<close>.\<close>

definition mapUSGSFeature :: "USGSFeature \<Rightarrow> Disaster" where
  "mapUSGSFeature feature =
     (let alertType =
            (if mag feature \<ge> MAGNITUDE_WARNING_THRESHOLD then Warning
             else if mag feature \<ge> MAGNITUDE_WATCH_THRESHOLD then Watch
             else Advisory);
          (lng, lt, depth) = coordinates feature
      in \<lparr> disasterType = Earthquake,
           alertType = alertType,
           location = place feature,
           latitude = NumText lt,
           longitude = NumText lng,
           source = ''USGS'' \<rparr>)"

definition mapUSGSResponseToDisasters :: "USGSResponse \<Rightarrow> Disaster list" where
  "mapUSGSResponseToDisasters data = map mapUSGSFeature (usgs_features data)"

text \<open>
  The JSON body of the seismic feed. Absent may be: the \<open>features\<close> array, the
  \<open>properties\<close> of a feature, its magnitude, its coordinates (\<open>None\<close> when the feature has
  no \<open>geometry\<close> or the geometry no \<open>coordinates\<close>), and entries of the coordinate array.
  Strings that are only copied into a column are kept as declared.
\<close>

record USGSProperties_json =
  mag_json :: "real option"
  place_json :: string

record USGSFeature_json =
  usgs_properties :: "USGSProperties_json option"
  usgs_coordinates :: "real list option"

record USGSResponse_json =
  usgs_features_json :: "USGSFeature_json list option"

text \<open>
  The callback of \<open>data.features.map\<close> on a JSON feature. A comparison with an absent
  magnitude is false. TypeErrors: \<open>feature.properties.mag\<close> without properties,
  \<open>feature.geometry.coordinates\<close> and its destructuring without geometry or coordinates,
  \<open>mag.toFixed(1)\<close> without a magnitude, \<open>latitude.toString()\<close> and
  \<open>longitude.toString()\<close> when the array has fewer than two entries. A missing third
  entry (the depth) is only copied.
\<close>

definition mapUSGSFeature_json :: "USGSFeature_json \<Rightarrow> exn + Disaster" where
  "mapUSGSFeature_json feature =
     (case usgs_properties feature of
        None \<Rightarrow> Inl TypeError
      | Some properties \<Rightarrow>
          (let alertType =
                 (case mag_json properties of
                    None \<Rightarrow> Advisory
                  | Some m \<Rightarrow>
                      if m \<ge> MAGNITUDE_WARNING_THRESHOLD then Warning
                      else if m \<ge> MAGNITUDE_WATCH_THRESHOLD then Watch
                      else Advisory)
           in case usgs_coordinates feature of
                None \<Rightarrow> Inl TypeError
              | Some cs \<Rightarrow>
                  (case mag_json properties of
                     None \<Rightarrow> Inl TypeError
                   | Some m \<Rightarrow>
                       (case cs of
                          lng # lt # rest \<Rightarrow>
                            Inr \<lparr> disasterType = Earthquake,
                                  alertType = alertType,
                                  location = place_json properties,
                                  latitude = NumText lt,
                                  longitude = NumText lng,
                                  source = ''USGS'' \<rparr>
                        | _ \<Rightarrow> Inl TypeError))))"

text \<open>\<open>mapUSGSResponseToDisasters\<close> on a JSON body; \<open>data.features.map\<close> needs the array.\<close>

definition mapUSGSResponseToDisasters_json :: "USGSResponse_json \<Rightarrow> exn + Disaster list" where
  "mapUSGSResponseToDisasters_json data =
     (case usgs_features_json data of
        None \<Rightarrow> Inl TypeError
      | Some features \<Rightarrow> map_exn mapUSGSFeature_json features)"

text \<open>The JSON body of a response of the declared type.\<close>

definition usgs_feature_json :: "USGSFeature \<Rightarrow> USGSFeature_json" where
  "usgs_feature_json f =
     \<lparr> usgs_properties = Some \<lparr> mag_json = Some (mag f), place_json = place f \<rparr>,
       usgs_coordinates =
         Some (case coordinates f of (lng, lt, depth) \<Rightarrow> [lng, lt, depth]) \<rparr>"

definition usgs_json :: "USGSResponse \<Rightarrow> USGSResponse_json" where
  "usgs_json data = \<lparr> usgs_features_json = Some (map usgs_feature_json (usgs_features data)) \<rparr>"

section \<open>Weather-alert adapter (noaa.ts)\<close>

text \<open>
  A ring is a list of (longitude, latitude) positions. \<open>OtherGeometry t\<close> is a geometry
  whose type string \<open>t\<close> is none of Point, Polygon and MultiPolygon.
\<close>

datatype geometry =
    Point real real
  | Polygon "(real \<times> real) list list"
  | MultiPolygon "(real \<times> real) list list list"
  | OtherGeometry string

record NOAAAlert =
  event :: string
  severity :: string
  areaDesc :: string
  geometry :: "geometry option"

record NOAAResponse =
  noaa_features :: "NOAAAlert list"

text \<open>The lexicon, in declaration order (the order of \<open>Object.keys\<close> and \<open>Object.entries\<close>).\<close>

definition noaaEventToDisasterType :: "(string \<times> DisasterType) list" where
  "noaaEventToDisasterType =
     [(''Tornado'', Storm),
      (''Tornado Warning'', Storm),
      (''Tornado Watch'', Storm),
      (''Severe Thunderstorm'', Storm),
      (''Severe Thunderstorm Warning'', Storm),
      (''Severe Thunderstorm Watch'', Storm),
      (''Flash Flood'', Flood),
      (''Flash Flood Warning'', Flood),
      (''Flash Flood Watch'', Flood),
      (''Flood'', Flood),
      (''Flood Warning'', Flood),
      (''Flood Watch'', Flood),
      (''Hurricane'', Storm),
      (''Hurricane Warning'', Storm),
      (''Hurricane Watch'', Storm),
      (''Tropical Storm'', Storm),
      (''Tropical Storm Warning'', Storm),
      (''Tropical Storm Watch'', Storm),
      (''Winter Storm'', Storm),
      (''Winter Storm Warning'', Storm),
      (''Winter Storm Watch'', Storm),
      (''Blizzard'', Storm),
      (''Blizzard Warning'', Storm),
      (''Blizzard Watch'', Storm),
      (''Tsunami'', Flood),
      (''Tsunami Warning'', Flood),
      (''Tsunami Watch'', Flood),
      (''Red Flag'', Wildfire),
      (''Fire Weather'', Wildfire),
      (''Fire Warning'', Wildfire),
      (''Wildfire'', Wildfire)]"

definition noaaSeverityToAlertType :: "(string \<times> AlertType) list" where
  "noaaSeverityToAlertType =
     [(''Extreme'', Warning),
      (''Severe'', Warning),
      (''Moderate'', Watch),
      (''Minor'', Advisory),
      (''Unknown'', Advisory)]"

text \<open>\<open>event.toLowerCase().includes(key.toLowerCase())\<close>.\<close>

definition eventMatches :: "string \<Rightarrow> string \<Rightarrow> bool" where
  "eventMatches ev key = includes_str (toLowerCase ev) (toLowerCase key)"

text \<open>The callback of \<open>data.features.filter\<close>.\<close>

definition isRelevantEvent :: "NOAAAlert \<Rightarrow> bool" where
  "isRelevantEvent feature =
     list_ex (\<lambda>key. eventMatches (event feature) key) (map fst noaaEventToDisasterType)"

text \<open>The \<open>for .. of Object.entries\<close> loop with its \<open>break\<close>; \<open>Storm\<close> is the initial value.\<close>

fun resolveDisasterType :: "(string \<times> DisasterType) list \<Rightarrow> string \<Rightarrow> DisasterType" where
  "resolveDisasterType [] ev = Storm"
| "resolveDisasterType ((key, val) # entries) ev =
     (if eventMatches ev key then val else resolveDisasterType entries ev)"

text \<open>
  The centroid of a ring as the texts of \<open>(latitude, longitude)\<close>: the two \<open>reduce\<close> calls
  and the division by \<open>coordinates.length\<close>, which is \<open>0 / 0 = NaN\<close> on an empty ring.
\<close>

definition ringCentroid :: "(real \<times> real) list \<Rightarrow> num_text \<times> num_text" where
  "ringCentroid cs =
     (let sumLat = foldl (\<lambda>sum coord. sum + snd coord) 0 cs;
          sumLng = foldl (\<lambda>sum coord. sum + fst coord) 0 cs
      in if length cs = 0 then (NaNText, NaNText)
         else (NumText (sumLat / real (length cs)), NumText (sumLng / real (length cs))))"

text \<open>
  Lines 133 to 156: the texts of \<open>(latitude, longitude)\<close>. Reading \<open>coordinates[0]\<close> of a
  Polygon without rings, or \<open>coordinates[0][0]\<close> of a MultiPolygon whose first polygon has
  none, gives \<open>undefined\<close>, and \<open>reduce\<close> on it raises a TypeError.
\<close>

definition extractCoordinates :: "geometry option \<Rightarrow> exn + (num_text \<times> num_text)" where
  "extractCoordinates g =
     (case g of
        None \<Rightarrow> Inr (NumText 0, NumText 0)
      | Some (Point lng lt) \<Rightarrow> Inr (NumText lt, NumText lng)
      | Some (Polygon rings) \<Rightarrow>
          (case rings of [] \<Rightarrow> Inl TypeError | ring # _ \<Rightarrow> Inr (ringCentroid ring))
      | Some (MultiPolygon polys) \<Rightarrow>
          (case polys of
             [] \<Rightarrow> Inl TypeError
           | [] # _ \<Rightarrow> Inl TypeError
           | (ring # _) # _ \<Rightarrow> Inr (ringCentroid ring))
      | Some (OtherGeometry t) \<Rightarrow> Inr (NumText 0, NumText 0))"

text \<open>The callback of \<open>.map\<close> in \<open>mapNOAAResponseToDisasters\<close>.\<close>

definition mapNOAAFeature :: "NOAAAlert \<Rightarrow> exn + Disaster" where
  "mapNOAAFeature feature =
     (let disasterType = resolveDisasterType noaaEventToDisasterType (event feature);
          alertType =
            (case map_of noaaSeverityToAlertType (severity feature) of
               Some a \<Rightarrow> a
             | None \<Rightarrow> Advisory)
      in case extractCoordinates (geometry feature) of
           Inl e \<Rightarrow> Inl e
         | Inr (lt, lng) \<Rightarrow>
             Inr \<lparr> disasterType = disasterType,
                   alertType = alertType,
                   location = areaDesc feature,
                   latitude = lt,
                   longitude = lng,
                   source = ''NOAA'' \<rparr>)"

definition mapNOAAResponseToDisasters :: "NOAAResponse \<Rightarrow> exn + Disaster list" where
  "mapNOAAResponseToDisasters data =
     map_exn mapNOAAFeature (filter isRelevantEvent (noaa_features data))"

text \<open>
  The JSON body of the weather-alert feed. Absent may be: the \<open>features\<close> array, the
  \<open>properties\<close> of a feature, its event name, its severity and its geometry; a geometry
  has the shapes of \<open>geometry\<close>, among them polygons without rings and empty rings.
\<close>

record NOAAProperties_json =
  event_json :: "string option"
  severity_json :: "string option"
  areaDesc_json :: string

record NOAAAlert_json =
  noaa_properties :: "NOAAProperties_json option"
  noaa_geometry :: "geometry option"

record NOAAResponse_json =
  noaa_features_json :: "NOAAAlert_json list option"

text \<open>
  The callback of \<open>data.features.filter\<close> on a JSON feature. TypeErrors:
  \<open>feature.properties.event\<close> without properties, \<open>event.toLowerCase()\<close> without an event.
\<close>

definition isRelevantEvent_json :: "NOAAAlert_json \<Rightarrow> exn + bool" where
  "isRelevantEvent_json feature =
     (case noaa_properties feature of
        None \<Rightarrow> Inl TypeError
      | Some properties \<Rightarrow>
          (case event_json properties of
             None \<Rightarrow> Inl TypeError
           | Some ev \<Rightarrow>
               Inr (list_ex (\<lambda>key. eventMatches ev key) (map fst noaaEventToDisasterType))))"

text \<open>
  The callback of \<open>.map\<close> on a JSON feature. The lookup of an absent severity gives
  \<open>undefined\<close>, which \<open>||\<close> replaces by Advisory.
\<close>

definition mapNOAAFeature_json :: "NOAAAlert_json \<Rightarrow> exn + Disaster" where
  "mapNOAAFeature_json feature =
     (case noaa_properties feature of
        None \<Rightarrow> Inl TypeError
      | Some properties \<Rightarrow>
          (case event_json properties of
             None \<Rightarrow> Inl TypeError
           | Some ev \<Rightarrow>
               (let disasterType = resolveDisasterType noaaEventToDisasterType ev;
                    alertType =
                      (case severity_json properties of
                         None \<Rightarrow> Advisory
                       | Some sev \<Rightarrow>
                           (case map_of noaaSeverityToAlertType sev of
                              Some a \<Rightarrow> a
                            | None \<Rightarrow> Advisory))
                in case extractCoordinates (noaa_geometry feature) of
                     Inl e \<Rightarrow> Inl e
                   | Inr (lt, lng) \<Rightarrow>
                       Inr \<lparr> disasterType = disasterType,
                             alertType = alertType,
                             location = areaDesc_json properties,
                             latitude = lt,
                             longitude = lng,
                             source = ''NOAA'' \<rparr>)))"

text \<open>\<open>mapNOAAResponseToDisasters\<close> on a JSON body: the filter runs over every feature
  before the first feature is mapped.\<close>

definition mapNOAAResponseToDisasters_json :: "NOAAResponse_json \<Rightarrow> exn + Disaster list" where
  "mapNOAAResponseToDisasters_json data =
     (case noaa_features_json data of
        None \<Rightarrow> Inl TypeError
      | Some features \<Rightarrow>
          (case filter_exn isRelevantEvent_json features of
             Inl e \<Rightarrow> Inl e
           | Inr kept \<Rightarrow> map_exn mapNOAAFeature_json kept))"

text \<open>The JSON body of a response of the declared type.\<close>

definition noaa_alert_json :: "NOAAAlert \<Rightarrow> NOAAAlert_json" where
  "noaa_alert_json f =
     \<lparr> noaa_properties =
         Some \<lparr> event_json = Some (event f), severity_json = Some (severity f),
                areaDesc_json = areaDesc f \<rparr>,
       noaa_geometry = geometry f \<rparr>"

definition noaa_json :: "NOAAResponse \<Rightarrow> NOAAResponse_json" where
  "noaa_json data = \<lparr> noaa_features_json = Some (map noaa_alert_json (noaa_features data)) \<rparr>"

section \<open>Payloads of the weather-condition feed (openweathermap.ts)\<close>

record OWMWeather =
  weather_id :: real
  main :: string

text \<open>\<open>coord\<close> is (lon, lat); \<open>rain\<close> holds the optional \<open>'1h'\<close> and \<open>'3h'\<close> amounts.\<close>

record OWMCurrentWeather =
  coord :: "real \<times> real"
  weather :: "OWMWeather list"
  wind_speed :: real
  rain :: "(real option \<times> real option) option"
  name :: string
  country :: string

record OWMAlert =
  alert_event :: string

text \<open>An hourly forecast entry; \<open>hour_rain\<close> is \<open>rain?.['1h']\<close>.\<close>

record OWMHour =
  hour_rain :: "real option"

record OWMOneCall =
  lat :: real
  lon :: real
  timezone :: string
  current_wind_speed :: real
  current_weather :: "OWMWeather list"
  hourly :: "OWMHour list option"
  alerts :: "OWMAlert list option"

text \<open>
  The JSON body of the one-call endpoint. Absent may be: the coordinates, the time zone,
  the \<open>current\<close> block, its wind speed and its weather list, and the event name of an
  alert.
\<close>

record OWMAlert_json =
  alert_event_json :: "string option"

record OWMCurrent_json =
  wind_speed_json :: "real option"
  weather_json :: "OWMWeather list option"

record OWMOneCall_json =
  lat_json :: "real option"
  lon_json :: "real option"
  timezone_json :: "string option"
  current_json :: "OWMCurrent_json option"
  hourly_json :: "OWMHour list option"
  alerts_json :: "OWMAlert_json list option"

text \<open>The JSON body of a response of the declared type.\<close>

definition onecall_json :: "OWMOneCall \<Rightarrow> OWMOneCall_json" where
  "onecall_json data =
     \<lparr> lat_json = Some (lat data),
       lon_json = Some (lon data),
       timezone_json = Some (timezone data),
       current_json =
         Some \<lparr> wind_speed_json = Some (current_wind_speed data),
                weather_json = Some (current_weather data) \<rparr>,
       hourly_json = hourly data,
       alerts_json =
         map_option (map (\<lambda>a. \<lparr> alert_event_json = Some (alert_event a) \<rparr>)) (alerts data) \<rparr>"

section \<open>The environment and the two throwing fetches\<close>

text \<open>
  The environment of one call: the arithmetic of the platform, the two variables the API
  key is read from and what each upstream endpoint answers. The seismic feed is keyed by
  the endpoint file, the weather-alert feed by the optional area, the two weather
  endpoints by the coordinates of the request. The current-weather endpoint, which the
  aggregator never calls, answers with bodies of the declared type.
\<close>

record world =
  arith :: arithmetic
  env_OPENWEATHERMAP_API_KEY :: "string option"
  env_OWM_API_KEY :: "string option"
  usgs_feed :: "string \<Rightarrow> USGSResponse_json response"
  noaa_feed :: "string option \<Rightarrow> NOAAResponse_json response"
  owm_weather :: "real \<Rightarrow> real \<Rightarrow> OWMCurrentWeather response"
  owm_onecall :: "real \<Rightarrow> real \<Rightarrow> OWMOneCall_json response"

text \<open>The \<open>switch\<close> of \<open>fetchEarthquakeData\<close> that picks the endpoint file.\<close>

definition usgsEndpoint :: "string \<Rightarrow> string" where
  "usgsEndpoint timeRange =
     (if timeRange = ''1h'' \<or> timeRange = ''hour'' then ''all_hour.geojson''
      else if timeRange = ''24h'' \<or> timeRange = ''1day'' then ''all_day.geojson''
      else if timeRange = ''7d'' \<or> timeRange = ''7days'' then ''all_week.geojson''
      else if timeRange = ''30d'' \<or> timeRange = ''30days'' then ''all_month.geojson''
      else ''all_day.geojson'')"

definition fetchEarthquakeData :: "world \<Rightarrow> string \<Rightarrow> exn + Disaster list" where
  "fetchEarthquakeData w timeRange =
     (let endpoint = usgsEndpoint timeRange
      in case get_then (usgs_feed w endpoint) mapUSGSResponseToDisasters_json of
           Inl e \<Rightarrow> Inl (Error ''Failed to fetch earthquake data'')
         | Inr ds \<Rightarrow> Inr ds)"

definition fetchWeatherAlerts :: "world \<Rightarrow> string option \<Rightarrow> exn + Disaster list" where
  "fetchWeatherAlerts w area =
     (case get_then (noaa_feed w area) mapNOAAResponseToDisasters_json of
        Inl e \<Rightarrow> Inl (Error ''Failed to fetch weather alerts'')
      | Inr ds \<Rightarrow> Inr ds)"

section \<open>Weather-condition adapter (openweathermap.ts)\<close>

text \<open>\<open>process.env.OPENWEATHERMAP_API_KEY || process.env.OWM_API_KEY || ''\<close>.\<close>

definition OWM_API_KEY :: "world \<Rightarrow> string" where
  "OWM_API_KEY w =
     (case env_OPENWEATHERMAP_API_KEY w of
        Some k \<Rightarrow> if k \<noteq> [] then k else (case env_OWM_API_KEY w of Some k' \<Rightarrow> k' | None \<Rightarrow> [])
      | None \<Rightarrow> (case env_OWM_API_KEY w of Some k' \<Rightarrow> k' | None \<Rightarrow> []))"

definition SEVERE_WEATHER_CODES :: "real list" where
  "SEVERE_WEATHER_CODES =
     [200, 201, 202, 210, 211, 212, 221, 230, 231, 232,
      502, 503, 504, 511, 522, 531,
      602, 622,
      771, 781]"

definition WIND_WARNING_THRESHOLD :: real where
  "WIND_WARNING_THRESHOLD = 17.2"

definition WIND_WATCH_THRESHOLD :: real where
  "WIND_WATCH_THRESHOLD = 10.8"

definition RAIN_WARNING_THRESHOLD :: real where
  "RAIN_WARNING_THRESHOLD = 50"

definition RAIN_WATCH_THRESHOLD :: real where
  "RAIN_WATCH_THRESHOLD = 25"

definition getSevereWeatherType :: "real \<Rightarrow> DisasterType" where
  "getSevereWeatherType weatherId =
     (if weatherId \<ge> 200 \<and> weatherId < 300 then Storm
      else if (weatherId \<ge> 500 \<and> weatherId < 600) \<and>
              weatherId \<in> set [502, 503, 504, 511, 522, 531] then Flood
      else if (weatherId \<ge> 600 \<and> weatherId < 700) \<and> weatherId \<in> set [602, 622] then Storm
      else if weatherId = 781 then Storm
      else Storm)"

text \<open>Lines 291 to 307 of \<open>analyzeCurrentWeather\<close>: the successive assignments to \<open>alertType\<close>.\<close>

definition currentAlertType :: "OWMCurrentWeather \<Rightarrow> AlertType" where
  "currentAlertType data =
     (let alertType = Advisory;
          alertType =
            (if wind_speed data \<ge> WIND_WARNING_THRESHOLD then Warning
             else if wind_speed data \<ge> WIND_WATCH_THRESHOLD then Watch
             else alertType);
          alertType =
            (case rain data of
               None \<Rightarrow> alertType
             | Some (r1h, r3h) \<Rightarrow>
                 (case r3h of
                    None \<Rightarrow> alertType
                  | Some r \<Rightarrow>
                      if r = 0 then alertType
                      else if r \<ge> RAIN_WARNING_THRESHOLD then Warning
                      else if r \<ge> RAIN_WATCH_THRESHOLD then Watch
                      else alertType))
      in alertType)"

definition analyzeCurrentWeather :: "OWMCurrentWeather \<Rightarrow> Disaster list" where
  "analyzeCurrentWeather data =
     (case find (\<lambda>w. weather_id w \<in> set SEVERE_WEATHER_CODES) (weather data) of
        None \<Rightarrow> []
      | Some severeCondition \<Rightarrow>
          [\<lparr> disasterType = getSevereWeatherType (weather_id severeCondition),
             alertType = currentAlertType data,
             location = name data @ '', '' @ country data,
             latitude = NumText (snd (coord data)),
             longitude = NumText (fst (coord data)),
             source = ''OpenWeatherMap'' \<rparr>])"

text \<open>The callback of \<open>nextFewHours.some\<close>.\<close>

definition isHeavyRainHour :: "OWMHour \<Rightarrow> bool" where
  "isHeavyRainHour hour =
     (case hour_rain hour of
        None \<Rightarrow> False
      | Some r \<Rightarrow> r \<noteq> 0 \<and> r \<ge> RAIN_WATCH_THRESHOLD / 3)"

text \<open>Lines 347 to 367 of \<open>analyzeWeatherConditions\<close>.\<close>

definition conditionsAlertType :: "OWMOneCall \<Rightarrow> AlertType" where
  "conditionsAlertType data =
     (let alertType = Advisory;
          alertType =
            (if current_wind_speed data \<ge> WIND_WARNING_THRESHOLD then Warning
             else if current_wind_speed data \<ge> WIND_WATCH_THRESHOLD then Watch
             else alertType);
          alertType =
            (case hourly data of
               None \<Rightarrow> alertType
             | Some hours \<Rightarrow>
                 (let nextFewHours = take 12 hours;
                      heavyRainForecast = list_ex isHeavyRainHour nextFewHours
                  in if heavyRainForecast then Watch else alertType))
      in alertType)"

definition timezoneLocation :: "OWMOneCall \<Rightarrow> string" where
  "timezoneLocation data = replace CHR ''/'' '', '' (replace CHR ''_'' '' '' (timezone data))"

definition analyzeWeatherConditions :: "OWMOneCall \<Rightarrow> Disaster list" where
  "analyzeWeatherConditions data =
     (case find (\<lambda>w. weather_id w \<in> set SEVERE_WEATHER_CODES) (current_weather data) of
        None \<Rightarrow> []
      | Some severeCondition \<Rightarrow>
          [\<lparr> disasterType = getSevereWeatherType (weather_id severeCondition),
             alertType = conditionsAlertType data,
             location = timezoneLocation data,
             latitude = NumText (lat data),
             longitude = NumText (lon data),
             source = ''OpenWeatherMap'' \<rparr>])"

text \<open>The callback of \<open>data.alerts.map\<close> in \<open>processWeatherAlerts\<close>.\<close>

definition mapOWMAlert :: "OWMOneCall \<Rightarrow> OWMAlert \<Rightarrow> Disaster" where
  "mapOWMAlert data alert =
     (let ev = toLowerCase (alert_event alert)
      in \<lparr> disasterType =
             (if includes_str ev ''flood'' then Flood
              else if includes_str ev ''fire'' then Wildfire
              else Storm),
           alertType =
             (if includes_str ev ''warning'' then Warning
              else if includes_str ev ''watch'' then Watch
              else if includes_str ev ''advisory'' then Advisory
              else Advisory),
           location = timezoneLocation data,
           latitude = NumText (lat data),
           longitude = NumText (lon data),
           source = ''OpenWeatherMap'' \<rparr>)"

definition processWeatherAlerts :: "OWMOneCall \<Rightarrow> Disaster list" where
  "processWeatherAlerts data =
     (case alerts data of
        None \<Rightarrow> []
      | Some as \<Rightarrow> if length as = 0 then [] else map (mapOWMAlert data) as)"

text \<open>
  The callback of \<open>data.alerts.map\<close> on a JSON body. TypeErrors:
  \<open>alert.event.toLowerCase()\<close> without an event, \<open>data.timezone.replace\<close> without a time
  zone, \<open>data.lat.toString()\<close> and \<open>data.lon.toString()\<close> without coordinates.
\<close>

definition mapOWMAlert_json :: "OWMOneCall_json \<Rightarrow> OWMAlert_json \<Rightarrow> exn + Disaster" where
  "mapOWMAlert_json data alert =
     (case alert_event_json alert of
        None \<Rightarrow> Inl TypeError
      | Some e \<Rightarrow>
          (let ev = toLowerCase e
           in case timezone_json data of
                None \<Rightarrow> Inl TypeError
              | Some tz \<Rightarrow>
                  (case lat_json data of
                     None \<Rightarrow> Inl TypeError
                   | Some la \<Rightarrow>
                       (case lon_json data of
                          None \<Rightarrow> Inl TypeError
                        | Some lo \<Rightarrow>
                            Inr \<lparr> disasterType =
                                    (if includes_str ev ''flood'' then Flood
                                     else if includes_str ev ''fire'' then Wildfire
                                     else Storm),
                                  alertType =
                                    (if includes_str ev ''warning'' then Warning
                                     else if includes_str ev ''watch'' then Watch
                                     else if includes_str ev ''advisory'' then Advisory
                                     else Advisory),
                                  location = replace CHR ''/'' '', '' (replace CHR ''_'' '' '' tz),
                                  latitude = NumText la,
                                  longitude = NumText lo,
                                  source = ''OpenWeatherMap'' \<rparr>))))"

definition processWeatherAlerts_json :: "OWMOneCall_json \<Rightarrow> exn + Disaster list" where
  "processWeatherAlerts_json data =
     (case alerts_json data of
        None \<Rightarrow> Inr []
      | Some as \<Rightarrow> if length as = 0 then Inr [] else map_exn (mapOWMAlert_json data) as)"

text \<open>
  \<open>analyzeWeatherConditions\<close> on a JSON body. A comparison with an absent wind speed is
  false. TypeErrors: \<open>data.current.weather\<close> without the \<open>current\<close> block, \<open>.find\<close>
  without the weather list and, once a severe condition is found,
  \<open>data.timezone.replace\<close>, \<open>data.lat.toString()\<close> and \<open>data.lon.toString()\<close>.
\<close>

definition analyzeWeatherConditions_json :: "OWMOneCall_json \<Rightarrow> exn + Disaster list" where
  "analyzeWeatherConditions_json data =
     (case current_json data of
        None \<Rightarrow> Inl TypeError
      | Some current \<Rightarrow>
          (case weather_json current of
             None \<Rightarrow> Inl TypeError
           | Some ws \<Rightarrow>
               (case find (\<lambda>w. weather_id w \<in> set SEVERE_WEATHER_CODES) ws of
                  None \<Rightarrow> Inr []
                | Some severeCondition \<Rightarrow>
                    (let alertType = Advisory;
                         alertType =
                           (case wind_speed_json current of
                              None \<Rightarrow> alertType
                            | Some v \<Rightarrow>
                                if v \<ge> WIND_WARNING_THRESHOLD then Warning
                                else if v \<ge> WIND_WATCH_THRESHOLD then Watch
                                else alertType);
                         alertType =
                           (case hourly_json data of
                              None \<Rightarrow> alertType
                            | Some hours \<Rightarrow>
                                (let nextFewHours = take 12 hours;
                                     heavyRainForecast = list_ex isHeavyRainHour nextFewHours
                                 in if heavyRainForecast then Watch else alertType))
                     in case timezone_json data of
                          None \<Rightarrow> Inl TypeError
                        | Some tz \<Rightarrow>
                            (case lat_json data of
                               None \<Rightarrow> Inl TypeError
                             | Some la \<Rightarrow>
                                 (case lon_json data of
                                    None \<Rightarrow> Inl TypeError
                                  | Some lo \<Rightarrow>
                                      Inr [\<lparr> disasterType =
                                               getSevereWeatherType (weather_id severeCondition),
                                             alertType = alertType,
                                             location =
                                               replace CHR ''/'' '', '' (replace CHR ''_'' '' '' tz),
                                             latitude = NumText la,
                                             longitude = NumText lo,
                                             source = ''OpenWeatherMap'' \<rparr>]))))))"

definition fetchCurrentWeather :: "world \<Rightarrow> real \<Rightarrow> real \<Rightarrow> exn + Disaster list" where
  "fetchCurrentWeather w lt lng =
     (if OWM_API_KEY w = [] then Inr []
      else case get_then (owm_weather w lt lng)
                  (\<lambda>data. Inr (analyzeCurrentWeather data)) of
             Inl e \<Rightarrow> Inr []
           | Inr ds \<Rightarrow> Inr ds)"

definition fetchWeatherOneCall :: "world \<Rightarrow> real \<Rightarrow> real \<Rightarrow> exn + Disaster list" where
  "fetchWeatherOneCall w lt lng =
     (if OWM_API_KEY w = [] then Inr []
      else case get_then (owm_onecall w lt lng)
                  (\<lambda>data.
                     case processWeatherAlerts_json data of
                       Inl e \<Rightarrow> Inl e
                     | Inr alertDisasters \<Rightarrow>
                         (case analyzeWeatherConditions_json data of
                            Inl e \<Rightarrow> Inl e
                          | Inr conditionDisasters \<Rightarrow>
                              Inr (alertDisasters @ conditionDisasters))) of
             Inl e \<Rightarrow> Inr []
           | Inr ds \<Rightarrow> Inr ds)"

section \<open>Aggregator (index.ts)\<close>

record options =
  types :: "DisasterType list option"
  alertTypes :: "AlertType list option"
  timeRange :: "string option"
  opt_latitude :: "real option"
  opt_longitude :: "real option"
  radius :: "real option"

text \<open>Lines 33 to 37.\<close>

definition filterByTypes :: "options \<Rightarrow> Disaster list \<Rightarrow> Disaster list" where
  "filterByTypes opts allDisasters =
     (case types opts of
        None \<Rightarrow> allDisasters
      | Some ts \<Rightarrow>
          if length ts > 0 then filter (\<lambda>disaster. disasterType disaster \<in> set ts) allDisasters
          else allDisasters)"

text \<open>Lines 40 to 44.\<close>

definition filterByAlertTypes :: "options \<Rightarrow> Disaster list \<Rightarrow> Disaster list" where
  "filterByAlertTypes opts allDisasters =
     (case alertTypes opts of
        None \<Rightarrow> allDisasters
      | Some ats \<Rightarrow>
          if length ats > 0 then filter (\<lambda>disaster. alertType disaster \<in> set ats) allDisasters
          else allDisasters)"

text \<open>
  The callback of the location filter, lines 48 to 58. A comparison with NaN is false,
  whether the NaN is a parsed coordinate or the distance.
\<close>

definition withinRadius :: "arithmetic \<Rightarrow> real \<Rightarrow> real \<Rightarrow> real \<Rightarrow> Disaster \<Rightarrow> bool" where
  "withinRadius m qlat qlon r disaster =
     (if latitude disaster = EmptyText \<or> longitude disaster = EmptyText then False
      else case parseFloat (latitude disaster) of
             None \<Rightarrow> False
           | Some dlat \<Rightarrow>
               (case parseFloat (longitude disaster) of
                  None \<Rightarrow> False
                | Some dlon \<Rightarrow>
                    (case calculateDistance m qlat qlon dlat dlon of
                       None \<Rightarrow> False
                     | Some distance \<Rightarrow> distance \<le> r)))"

text \<open>Lines 47 to 59.\<close>

definition filterByLocation :: "arithmetic \<Rightarrow> options \<Rightarrow> Disaster list \<Rightarrow> Disaster list" where
  "filterByLocation m opts allDisasters =
     (if truthy (opt_latitude opts) \<and> truthy (opt_longitude opts) \<and> truthy (radius opts)
      then filter (withinRadius m (the (opt_latitude opts)) (the (opt_longitude opts))
                     (the (radius opts))) allDisasters
      else allDisasters)"

text \<open>Line 18: \<open>mapTimeRangeToValue(options.timeRange || '24h')\<close>.\<close>

definition requestedTimeRange :: "options \<Rightarrow> string" where
  "requestedTimeRange opts =
     mapTimeRangeToValue
       (case timeRange opts of None \<Rightarrow> ''24h'' | Some t \<Rightarrow> if t = [] then ''24h'' else t)"

text \<open>
  \<open>Promise.all\<close> rejects as soon as one of the three promises rejects, and the \<open>catch\<close>
  block replaces whatever was thrown by one fixed error.
\<close>

definition getAllDisasters :: "world \<Rightarrow> options \<Rightarrow> exn + Disaster list" where
  "getAllDisasters w opts =
     (let failed = Inl (Error ''Failed to fetch disaster data'');
          tr = requestedTimeRange opts
      in case fetchEarthquakeData w tr of
           Inl e \<Rightarrow> failed
         | Inr earthquakes \<Rightarrow>
             (case fetchWeatherAlerts w None of
                Inl e \<Rightarrow> failed
              | Inr weatherAlerts \<Rightarrow>
                  (case (if truthy (opt_latitude opts) \<and> truthy (opt_longitude opts)
                         then fetchWeatherOneCall w (the (opt_latitude opts)) (the (opt_longitude opts))
                         else Inr []) of
                     Inl e \<Rightarrow> failed
                   | Inr weatherData \<Rightarrow>
                       Inr (filterByLocation (arith w) opts
                              (filterByAlertTypes opts
                                 (filterByTypes opts
                                    (earthquakes @ weatherAlerts @ weatherData)))))))"

section \<open>The rules in the words of the specification\<close>

text \<open>
  These two definitions follow the specification, not the source: an event name matches
  a key when its lower-cased text contains the lower-cased key as a substring, and the
  resolved type is the value of the first matching key in declaration order.
\<close>

definition containsIgnoringCase :: "string \<Rightarrow> string \<Rightarrow> bool" where
  "containsIgnoringCase ev key = (\<exists>p q. toLowerCase ev = p @ toLowerCase key @ q)"

definition firstMatchingValue :: "string \<Rightarrow> DisasterType \<Rightarrow> bool" where
  "firstMatchingValue ev v =
     (\<exists>i < length noaaEventToDisasterType.
        containsIgnoringCase ev (fst (noaaEventToDisasterType ! i)) \<and>
        (\<forall>j < i. \<not> containsIgnoringCase ev (fst (noaaEventToDisasterType ! j))) \<and>
        v = snd (noaaEventToDisasterType ! i))"

text \<open>
  The two rules of the weather-condition classifier as the specification words them, the
  larger of two levels, and the 3-hour rainfall of a report (0 when none is reported).
\<close>

definition windLevel :: "real \<Rightarrow> AlertType" where
  "windLevel speed = (if speed \<ge> 17.2 then Warning else if speed \<ge> 10.8 then Watch else Advisory)"

definition rainLevel :: "real \<Rightarrow> AlertType" where
  "rainLevel mm = (if mm \<ge> 50 then Warning else if mm \<ge> 25 then Watch else Advisory)"

definition maxLevel :: "AlertType \<Rightarrow> AlertType \<Rightarrow> AlertType" where
  "maxLevel a b = (if severityRank a \<ge> severityRank b then a else b)"

definition rain3h :: "OWMCurrentWeather \<Rightarrow> real" where
  "rain3h data =
     (case rain data of
        None \<Rightarrow> 0
      | Some (r1h, None) \<Rightarrow> 0
      | Some (r1h, Some r) \<Rightarrow> r)"







section \<open>Concrete inputs\<close>

text \<open>A current-conditions report: extreme rain, wind at the warning threshold, 30 mm in 3 hours.\<close>

definition gale_with_moderate_rain :: OWMCurrentWeather where
  "gale_with_moderate_rain =
     \<lparr> coord = (139, 35),
       weather = [\<lparr> weather_id = 502, main = ''Rain'' \<rparr>],
       wind_speed = 17.2,
       rain = Some (None, Some 30),
       name = ''Tokyo'',
       country = ''JP'' \<rparr>"

text \<open>A one-call report: the same wind, and 10 mm forecast for the second hour.\<close>

definition gale_with_rain_forecast :: OWMOneCall where
  "gale_with_rain_forecast =
     \<lparr> lat = 35,
       lon = 139,
       timezone = ''Asia/Tokyo'',
       current_wind_speed = 17.2,
       current_weather = [\<lparr> weather_id = 502, main = ''Rain'' \<rparr>],
       hourly = Some [\<lparr> hour_rain = None \<rparr>, \<lparr> hour_rain = Some 10 \<rparr>],
       alerts = None \<rparr>"

text \<open>Three alerts: a recognised one with a point, an unrecognised one, a recognised one
  with a geometry of another type.\<close>

definition sample_alerts :: NOAAResponse where
  "sample_alerts =
     \<lparr> noaa_features =
         [\<lparr> event = ''Flash Flood Warning'', severity = ''Severe'', areaDesc = ''Travis, TX'',
             geometry = Some (Point (-97) 30) \<rparr>,
          \<lparr> event = ''Special Weather Statement'', severity = ''Minor'', areaDesc = ''Hays, TX'',
             geometry = None \<rparr>,
          \<lparr> event = ''RED FLAG WARNING'', severity = ''Moderate'', areaDesc = ''Kern, CA'',
             geometry = Some (OtherGeometry ''GeometryCollection'') \<rparr>] \<rparr>"

definition sample_alert_events :: "Disaster list" where
  "sample_alert_events =
     [\<lparr> disasterType = Flood, alertType = Warning, location = ''Travis, TX'',
        latitude = NumText 30, longitude = NumText (-97), source = ''NOAA'' \<rparr>,
      \<lparr> disasterType = Wildfire, alertType = Watch, location = ''Kern, CA'',
        latitude = NumText 0, longitude = NumText 0, source = ''NOAA'' \<rparr>]"

definition red_flag_alert :: NOAAAlert where
  "red_flag_alert =
     \<lparr> event = ''RED FLAG WARNING'', severity = ''Moderate'', areaDesc = ''Kern, CA'',
       geometry = None \<rparr>"

definition red_flag_event :: Disaster where
  "red_flag_event =
     \<lparr> disasterType = Wildfire, alertType = Watch, location = ''Kern, CA'',
       latitude = NumText 0, longitude = NumText 0, source = ''NOAA'' \<rparr>"

text \<open>The same alert without a severity, and the event it is mapped to.\<close>

definition red_flag_without_severity :: NOAAAlert_json where
  "red_flag_without_severity =
     \<lparr> noaa_properties =
         Some \<lparr> event_json = Some ''RED FLAG WARNING'', severity_json = None,
                areaDesc_json = ''Kern, CA'' \<rparr>,
       noaa_geometry = None \<rparr>"

definition red_flag_advisory :: Disaster where
  "red_flag_advisory =
     \<lparr> disasterType = Wildfire, alertType = Advisory, location = ''Kern, CA'',
       latitude = NumText 0, longitude = NumText 0, source = ''NOAA'' \<rparr>"

text \<open>An earthquake at latitude 0, longitude 0, and the event the seismic adapter maps it to.\<close>

definition origin_quake :: USGSFeature where
  "origin_quake = \<lparr> mag = 4.5, place = ''Gulf of Guinea'', coordinates = (0, 0, 10) \<rparr>"

definition origin_quake_event :: Disaster where
  "origin_quake_event =
     \<lparr> disasterType = Earthquake, alertType = Watch, location = ''Gulf of Guinea'',
       latitude = NumText 0, longitude = NumText 0, source = ''USGS'' \<rparr>"

text \<open>The same earthquake in two bodies that lack a declared part: the depth, the magnitude.\<close>

definition quake_without_depth :: USGSResponse_json where
  "quake_without_depth =
     \<lparr> usgs_features_json =
         Some [\<lparr> usgs_properties = Some \<lparr> mag_json = Some 4.5, place_json = ''Gulf of Guinea'' \<rparr>,
                 usgs_coordinates = Some [0, 0] \<rparr>] \<rparr>"

definition quake_without_magnitude :: USGSResponse_json where
  "quake_without_magnitude =
     \<lparr> usgs_features_json =
         Some [\<lparr> usgs_properties = Some \<lparr> mag_json = None, place_json = ''Gulf of Guinea'' \<rparr>,
                 usgs_coordinates = Some [0, 0, 10] \<rparr>] \<rparr>"

definition flood_alert_event :: "real \<Rightarrow> real \<Rightarrow> Disaster" where
  "flood_alert_event la lo =
     \<lparr> disasterType = Flood, alertType = Warning, location = ''Etc, UTC'',
       latitude = NumText la, longitude = NumText lo, source = ''OpenWeatherMap'' \<rparr>"

text \<open>
  A world with an API key where every feed answers with a body of the declared type:
  one earthquake at the origin, no government alert, and a flood warning in the one-call
  response of every location. Its arithmetic is exact.
\<close>

definition sample_world :: world where
  "sample_world =
     \<lparr> arith = exact_arithmetic,
       env_OPENWEATHERMAP_API_KEY = Some ''k'',
       env_OWM_API_KEY = None,
       usgs_feed = (\<lambda>endpoint. Ok (usgs_json \<lparr> usgs_features = [origin_quake] \<rparr>)),
       noaa_feed = (\<lambda>area. Ok (noaa_json \<lparr> noaa_features = [] \<rparr>)),
       owm_weather = (\<lambda>la lo. Ok gale_with_moderate_rain),
       owm_onecall =
         (\<lambda>la lo. Ok (onecall_json
                         \<lparr> lat = la, lon = lo, timezone = ''Etc/UTC'',
                           current_wind_speed = 3, current_weather = [],
                           hourly = None,
                           alerts = Some [\<lparr> alert_event = ''Flood Warning'' \<rparr>] \<rparr>)) \<rparr>"

definition seismic_down_world :: world where
  "seismic_down_world = sample_world \<lparr> usgs_feed := (\<lambda>endpoint. Failed (BadStatus 503)) \<rparr>"

definition seismic_without_magnitude_world :: world where
  "seismic_without_magnitude_world =
     sample_world \<lparr> usgs_feed := (\<lambda>endpoint. Ok quake_without_magnitude) \<rparr>"

definition seismic_without_depth_world :: world where
  "seismic_without_depth_world =
     sample_world \<lparr> usgs_feed := (\<lambda>endpoint. Ok quake_without_depth) \<rparr>"

text \<open>The weather-alert feed answers with a body that has no \<open>features\<close> array.\<close>

definition alerts_malformed_world :: world where
  "alerts_malformed_world =
     sample_world \<lparr> noaa_feed := (\<lambda>area. Ok \<lparr> noaa_features_json = None \<rparr>) \<rparr>"

definition alerts_without_severity_world :: world where
  "alerts_without_severity_world =
     sample_world
       \<lparr> noaa_feed := (\<lambda>area. Ok \<lparr> noaa_features_json = Some [red_flag_without_severity] \<rparr>) \<rparr>"

definition weather_down_world :: world where
  "weather_down_world = sample_world \<lparr> owm_onecall := (\<lambda>la lo. Failed NetworkFailure) \<rparr>"

text \<open>The one-call endpoint answers with a flood warning but without the \<open>current\<close> block.\<close>

definition weather_without_current_world :: world where
  "weather_without_current_world =
     sample_world
       \<lparr> owm_onecall :=
           (\<lambda>la lo. Ok \<lparr> lat_json = Some la, lon_json = Some lo, timezone_json = Some ''Etc/UTC'',
                         current_json = None, hourly_json = None,
                         alerts_json = Some [\<lparr> alert_event_json = Some ''Flood Warning'' \<rparr>] \<rparr>) \<rparr>"

definition keyless_world :: world where
  "keyless_world = sample_world \<lparr> env_OPENWEATHERMAP_API_KEY := Some [] \<rparr>"

text \<open>No earthquake, and one government alert without a geometry.\<close>

definition alert_only_world :: world where
  "alert_only_world =
     sample_world
       \<lparr> usgs_feed := (\<lambda>endpoint. Ok (usgs_json \<lparr> usgs_features = [] \<rparr>)),
         noaa_feed := (\<lambda>area. Ok (noaa_json \<lparr> noaa_features = [red_flag_alert] \<rparr>)) \<rparr>"

definition query :: "real \<Rightarrow> real \<Rightarrow> real option \<Rightarrow> options" where
  "query la lo r =
     \<lparr> types = None, alertTypes = None, timeRange = None,
       opt_latitude = Some la, opt_longitude = Some lo, radius = r \<rparr>"

section \<open>Haversine distance in exact arithmetic\<close>

lemma atan2_nonneg: "0 \<le> y \<Longrightarrow> 0 \<le> atan2 y x"
proof -
  assume y: "0 \<le> y"
  have lb: "- (pi / 2) < arctan (y / x)" by (rule arctan_lbound)
  show ?thesis
  proof (cases "0 < x")
    case True
    then have "0 \<le> y / x" using y by simp
    then show ?thesis using True by (simp add: atan2_def)
  next
    case False
    have "0 \<le> arctan (y / x) + pi" using lb pi_ge_two by linarith
    moreover have "0 \<le> pi / 2" using pi_ge_two by linarith
    ultimately show ?thesis using False y by (simp add: atan2_def)
  qed
qed

lemma haversine_a_sym: "haversine_a lat1 lon1 lat2 lon2 = haversine_a lat2 lon2 lat1 lon1"
proof -
  have p: "(lat1 - lat2) * pi / 180 / 2 = - ((lat2 - lat1) * pi / 180 / 2)"
    by (simp add: field_simps)
  have q: "(lon1 - lon2) * pi / 180 / 2 = - ((lon2 - lon1) * pi / 180 / 2)"
    by (simp add: field_simps)
  show ?thesis
    unfolding haversine_a_def Let_def p q sin_minus by simp
qed

lemma haversine_a_self: "haversine_a lt lng lt lng = 0"
  by (simp add: haversine_a_def)

lemma half_angle_square: "sin (t / 2) * sin (t / 2) = (1 - cos (t::real)) / 2"
proof -
  have "cos t = cos (2 * (t / 2))" by simp
  also have "\<dots> = 1 - 2 * sin (t / 2) ^ 2" by (rule cos_double_sin)
  finally show ?thesis by (simp add: power2_eq_square)
qed

lemma half_bounds:
  fixes c :: real
  assumes "- 1 \<le> c" and "c \<le> 1"
  shows "0 \<le> (1 - c) / 2" and "(1 - c) / 2 \<le> 1" and "0 \<le> (1 + c) / 2" and "(1 + c) / 2 \<le> 1"
  using assms by simp_all

text \<open>
  Without rounding the argument of the two square roots stays in the unit interval.
  With rounding it need not: near antipodal points the rounded sum can exceed 1, and
  the distance is then NaN.
\<close>

lemma haversine_a_bounds:
  "0 \<le> haversine_a lat1 lon1 lat2 lon2 \<and> haversine_a lat1 lon1 lat2 lon2 \<le> 1"
proof -
  define p where "p = lat1 * pi / 180"
  define q where "q = lat2 * pi / 180"
  define h where "h = sin ((lon2 - lon1) * pi / 180 / 2) * sin ((lon2 - lon1) * pi / 180 / 2)"
  have h0: "0 \<le> h" unfolding h_def by simp
  have h1: "h \<le> 1"
  proof -
    have "cos ((lon2 - lon1) * pi / 180 / 2) * cos ((lon2 - lon1) * pi / 180 / 2) + h = 1"
      unfolding h_def by (rule sin_cos_squared_add3)
    moreover have "0 \<le> cos ((lon2 - lon1) * pi / 180 / 2) * cos ((lon2 - lon1) * pi / 180 / 2)"
      by (rule zero_le_square)
    ultimately show ?thesis by linarith
  qed
  have d: "(lat2 - lat1) * pi / 180 = q - p"
    unfolding p_def q_def by (simp add: algebra_simps diff_divide_distrib)
  have "haversine_a lat1 lon1 lat2 lon2 =
      sin ((lat2 - lat1) * pi / 180 / 2) * sin ((lat2 - lat1) * pi / 180 / 2) + cos p * cos q * h"
    unfolding haversine_a_def Let_def p_def q_def h_def by (simp add: mult.assoc)
  then have a: "haversine_a lat1 lon1 lat2 lon2 = (1 - cos (q - p)) / 2 + cos p * cos q * h"
    by (simp only: half_angle_square d)
  have cd: "cos (q - p) = cos q * cos p + sin q * sin p" by (rule cos_diff)
  have ca: "cos (q + p) = cos q * cos p - sin q * sin p" by (rule cos_add)
  have e: "(1 - cos (q - p)) / 2 + cos p * cos q * h
           = (1 - h) * ((1 - cos (q - p)) / 2) + h * ((1 + cos (q + p)) / 2)"
    unfolding cd ca by (simp add: field_simps)
  note A = half_bounds(1,2)[OF cos_ge_minus_one cos_le_one, of "q - p"]
  note B = half_bounds(3,4)[OF cos_ge_minus_one cos_le_one, of "q + p"]
  have lo: "0 \<le> (1 - h) * ((1 - cos (q - p)) / 2) + h * ((1 + cos (q + p)) / 2)"
    using h0 h1 A B by (intro add_nonneg_nonneg mult_nonneg_nonneg) simp_all
  have "(1 - h) * ((1 - cos (q - p)) / 2) \<le> (1 - h) * 1"
    using h1 A by (intro mult_left_mono) simp_all
  moreover have "h * ((1 + cos (q + p)) / 2) \<le> h * 1"
    using h0 B by (intro mult_left_mono) simp_all
  ultimately have hi: "(1 - h) * ((1 - cos (q - p)) / 2) + h * ((1 + cos (q + p)) / 2) \<le> 1"
    by simp
  show ?thesis using lo hi a e by simp
qed

lemma calculateDistance_exact:
  "calculateDistance exact_arithmetic lat1 lon1 lat2 lon2 =
     Some (6371 * (2 * atan2 (sqrt (haversine_a lat1 lon1 lat2 lon2))
                              (sqrt (1 - haversine_a lat1 lon1 lat2 lon2))))"
proof -
  have "calculateDistance exact_arithmetic lat1 lon1 lat2 lon2 =
     (let a = haversine_a lat1 lon1 lat2 lon2
      in if a < 0 \<or> 1 - a < 0 then None
         else Some (6371 * (2 * atan2 (sqrt a) (sqrt (1 - a)))))"
    by (simp add: calculateDistance_def exact_arithmetic_def haversine_a_def Let_def)
  then show ?thesis
    using haversine_a_bounds[of lat1 lon1 lat2 lon2] by (simp add: Let_def not_less)
qed

text \<open>In exact arithmetic the distance is 0 from a point to itself, symmetric and never negative.\<close>

lemma calculateDistance_exact_properties:
  "calculateDistance exact_arithmetic la lo la lo = Some 0
   \<and> calculateDistance exact_arithmetic la1 lo1 la2 lo2 =
       calculateDistance exact_arithmetic la2 lo2 la1 lo1
   \<and> (\<exists>d. calculateDistance exact_arithmetic la1 lo1 la2 lo2 = Some d \<and> 0 \<le> d)"
proof (intro conjI)
  show "calculateDistance exact_arithmetic la lo la lo = Some 0"
    by (simp add: calculateDistance_exact haversine_a_self atan2_def)
  show "calculateDistance exact_arithmetic la1 lo1 la2 lo2 =
        calculateDistance exact_arithmetic la2 lo2 la1 lo1"
    unfolding calculateDistance_exact haversine_a_sym[of la1 lo1 la2 lo2] ..
  have "0 \<le> atan2 (sqrt (haversine_a la1 lo1 la2 lo2)) (sqrt (1 - haversine_a la1 lo1 la2 lo2))"
    using haversine_a_bounds[of la1 lo1 la2 lo2] by (intro atan2_nonneg) simp
  then show "\<exists>d. calculateDistance exact_arithmetic la1 lo1 la2 lo2 = Some d \<and> 0 \<le> d"
    by (simp add: calculateDistance_exact)
qed

text \<open>
  The distance from a point to itself is 0 in every arithmetic that rounds 0 and 1 to
  themselves and has \<open>sin 0 = 0\<close>, \<open>sqrt 0 = 0\<close> and \<open>atan2 0 (sqrt 1) = 0\<close>.
\<close>

lemma calculateDistance_self:
  assumes "rnd m 0 = 0" and "rnd m 1 = 1" and "Math_sin m 0 = 0" and "Math_sqrt m 0 = 0"
    and "Math_atan2 m 0 (Math_sqrt m 1) = 0"
  shows "calculateDistance m la lo la lo = Some 0"
  using assms by (simp add: calculateDistance_def Let_def)

lemma pi_ge_3: "3 \<le> pi"
proof -
  have "sin (pi / 6) \<le> pi / 6" by (rule sin_x_le_x) simp
  then show ?thesis by (simp add: sin_30)
qed

text \<open>From (0, 0.1) to (0, 0): a tenth of a degree along the equator.\<close>

lemma distance_tenth_degree:
  "calculateDistance exact_arithmetic 0 (1 / 10) 0 0 = Some (6371 * pi / 1800)"
proof -
  define t where "t = pi / 3600"
  have t: "0 < t" "t < pi / 2" unfolding t_def using pi_gt_zero by simp_all
  have "(0 - 1 / 10) * pi / 180 / 2 = - (pi / 3600)" by simp
  then have a: "haversine_a 0 (1 / 10) 0 0 = sin t * sin t"
    unfolding haversine_a_def Let_def t_def by simp
  have s: "0 < sin t" using t by (intro sin_gt_zero2)
  have c: "0 < cos t" using t by (intro cos_gt_zero_pi) simp_all
  have sq: "sqrt (sin t * sin t) = sin t" using s by simp
  have "cos t * cos t + sin t * sin t = 1" by (rule sin_cos_squared_add3)
  then have "1 - sin t * sin t = cos t * cos t" by linarith
  then have cq: "sqrt (1 - sin t * sin t) = cos t" using c by simp
  have "atan2 (sin t) (cos t) = arctan (tan t)" using c by (simp add: atan2_def tan_def)
  also have "\<dots> = t" using t by (intro arctan_tan) simp_all
  finally have "atan2 (sin t) (cos t) = t" .
  then show ?thesis
    unfolding calculateDistance_exact a sq cq by (simp add: t_def)
qed

lemma tenth_degree_bounds: "10 < 6371 * pi / 1800 \<and> 6371 * pi / 1800 \<le> 15"
  using pi_ge_3 pi_less_4 by simp

section \<open>JSON bodies: bodies of the declared type, and when a body can be read\<close>

lemma map_exn_map: "map_exn f (map g xs) = map_exn (\<lambda>x. f (g x)) xs"
  by (induction xs) (simp_all split: sum.splits)

lemma map_exn_total: "(\<And>x. x \<in> set xs \<Longrightarrow> f x = Inr (h x)) \<Longrightarrow> map_exn f xs = Inr (map h xs)"
  by (induction xs) simp_all

lemma map_exn_cong: "(\<And>x. x \<in> set xs \<Longrightarrow> f x = g x) \<Longrightarrow> map_exn f xs = map_exn g xs"
  by (induction xs) (simp_all split: sum.splits)

lemma filter_exn_total:
  "(\<And>x. x \<in> set xs \<Longrightarrow> p x = Inr (q x)) \<Longrightarrow> filter_exn p xs = Inr (filter q xs)"
  by (induction xs) simp_all



lemma mapUSGSFeature_json_typed: "mapUSGSFeature_json (usgs_feature_json f) = Inr (mapUSGSFeature f)"
  by (simp add: mapUSGSFeature_json_def usgs_feature_json_def mapUSGSFeature_def split: prod.splits)

lemma mapUSGSResponseToDisasters_json_typed:
  "mapUSGSResponseToDisasters_json (usgs_json data) = Inr (mapUSGSResponseToDisasters data)"
  by (simp add: mapUSGSResponseToDisasters_json_def usgs_json_def mapUSGSResponseToDisasters_def
      map_exn_map map_exn_total mapUSGSFeature_json_typed)

lemma isRelevantEvent_json_typed: "isRelevantEvent_json (noaa_alert_json f) = Inr (isRelevantEvent f)"
  by (simp add: isRelevantEvent_json_def noaa_alert_json_def isRelevantEvent_def)

lemma mapNOAAFeature_json_typed: "mapNOAAFeature_json (noaa_alert_json f) = mapNOAAFeature f"
  by (simp add: mapNOAAFeature_json_def noaa_alert_json_def mapNOAAFeature_def
      split: sum.splits prod.splits)

lemma filter_exn_map: "filter_exn p (map g xs) = map_sum id (map g) (filter_exn (\<lambda>x. p (g x)) xs)"
  by (induction xs) (auto split: sum.splits)

lemma mapNOAAResponseToDisasters_json_typed:
  "mapNOAAResponseToDisasters_json (noaa_json data) = mapNOAAResponseToDisasters data"
proof -
  have "filter_exn isRelevantEvent_json (map noaa_alert_json (noaa_features data)) =
        Inr (map noaa_alert_json (filter isRelevantEvent (noaa_features data)))"
    by (simp add: filter_exn_map isRelevantEvent_json_typed filter_exn_total)
  then show ?thesis
    by (simp add: mapNOAAResponseToDisasters_json_def noaa_json_def mapNOAAResponseToDisasters_def
        map_exn_map mapNOAAFeature_json_typed)
qed

lemma processWeatherAlerts_json_typed:
  "processWeatherAlerts_json (onecall_json data) = Inr (processWeatherAlerts data)"
proof (cases "alerts data")
  case None
  then show ?thesis
    by (simp add: processWeatherAlerts_json_def onecall_json_def processWeatherAlerts_def)
next
  case (Some as)
  have "map_exn (mapOWMAlert_json (onecall_json data))
          (map (\<lambda>a. \<lparr> alert_event_json = Some (alert_event a) \<rparr>) as) =
        Inr (map (mapOWMAlert data) as)"
    unfolding map_exn_map
    by (rule map_exn_total)
       (simp add: mapOWMAlert_json_def onecall_json_def mapOWMAlert_def timezoneLocation_def Let_def)
  with Some show ?thesis
    by (simp add: processWeatherAlerts_json_def onecall_json_def processWeatherAlerts_def)
qed

lemma analyzeWeatherConditions_json_typed:
  "analyzeWeatherConditions_json (onecall_json data) = Inr (analyzeWeatherConditions data)"
  by (simp add: analyzeWeatherConditions_json_def onecall_json_def analyzeWeatherConditions_def
      conditionsAlertType_def timezoneLocation_def Let_def split: option.splits)










section \<open>The lexicon loop against its specification\<close>

lemma startsWith_iff: "startsWith s t \<longleftrightarrow> (\<exists>q. s = t @ q)"
  by (induction s t rule: startsWith.induct) auto

lemma includes_str_iff: "includes_str s t \<longleftrightarrow> (\<exists>p q. s = p @ t @ q)"
proof (induction s)
  case Nil
  show ?case by (auto simp: startsWith_iff)
next
  case (Cons x xs)
  have "(\<exists>p q. x # xs = p @ t @ q) \<longleftrightarrow> (\<exists>q. x # xs = t @ q) \<or> (\<exists>p q. xs = p @ t @ q)"
  proof
    assume "\<exists>p q. x # xs = p @ t @ q"
    then obtain p q where pq: "x # xs = p @ t @ q" by blast
    show "(\<exists>q. x # xs = t @ q) \<or> (\<exists>p q. xs = p @ t @ q)"
    proof (cases p)
      case Nil
      with pq show ?thesis by auto
    next
      case (Cons y ys)
      with pq have "xs = ys @ t @ q" by simp
      then show ?thesis by blast
    qed
  next
    assume "(\<exists>q. x # xs = t @ q) \<or> (\<exists>p q. xs = p @ t @ q)"
    then show "\<exists>p q. x # xs = p @ t @ q"
    proof
      assume "\<exists>q. x # xs = t @ q"
      then obtain q where "x # xs = [] @ t @ q" by auto
      then show ?thesis by blast
    next
      assume "\<exists>p q. xs = p @ t @ q"
      then obtain p q where "x # xs = (x # p) @ t @ q" by auto
      then show ?thesis by blast
    qed
  qed
  with Cons show ?case by (simp add: startsWith_iff)
qed

lemma eventMatches_iff: "eventMatches ev key \<longleftrightarrow> containsIgnoringCase ev key"
  by (simp add: eventMatches_def containsIgnoringCase_def includes_str_iff)

lemma isRelevantEvent_iff:
  "isRelevantEvent f \<longleftrightarrow>
     (\<exists>key \<in> set (map fst noaaEventToDisasterType). containsIgnoringCase (event f) key)"
  by (simp add: isRelevantEvent_def list_ex_iff eventMatches_iff del: set_map)

text \<open>The loop stops at the first entry whose key matches, whatever the list of entries.\<close>

lemma resolveDisasterType_first:
  "list_ex (\<lambda>key. eventMatches ev key) (map fst entries) \<Longrightarrow>
     \<exists>i < length entries.
        eventMatches ev (fst (entries ! i)) \<and>
        (\<forall>j < i. \<not> eventMatches ev (fst (entries ! j))) \<and>
        resolveDisasterType entries ev = snd (entries ! i)"
proof (induction entries)
  case Nil
  then show ?case by simp
next
  case (Cons e entries)
  obtain key v where e: "e = (key, v)" by (cases e)
  show ?case
  proof (cases "eventMatches ev key")
    case True
    then have "eventMatches ev (fst ((e # entries) ! 0)) \<and>
        (\<forall>j < 0. \<not> eventMatches ev (fst ((e # entries) ! j))) \<and>
        resolveDisasterType (e # entries) ev = snd ((e # entries) ! 0)"
      by (simp add: e)
    then show ?thesis by (intro exI[of _ 0]) simp
  next
    case False
    with Cons.prems have "list_ex (\<lambda>key. eventMatches ev key) (map fst entries)"
      by (simp add: e)
    from Cons.IH[OF this] obtain i where i: "i < length entries"
      "eventMatches ev (fst (entries ! i))"
      "\<forall>j < i. \<not> eventMatches ev (fst (entries ! j))"
      "resolveDisasterType entries ev = snd (entries ! i)" by blast
    have "\<forall>j < Suc i. \<not> eventMatches ev (fst ((e # entries) ! j))"
    proof (intro allI impI)
      fix j assume "j < Suc i"
      then show "\<not> eventMatches ev (fst ((e # entries) ! j))"
        using False i(3) by (cases j) (simp_all add: e)
    qed
    moreover have "resolveDisasterType (e # entries) ev = snd ((e # entries) ! Suc i)"
      using False i(4) by (simp add: e)
    ultimately show ?thesis
      using i(1,2) by (intro exI[of _ "Suc i"]) simp
  qed
qed

lemma map_exn_Inr: "map_exn f xs = Inr ys \<Longrightarrow> list_all2 (\<lambda>y x. f x = Inr y) ys xs"
proof (induction xs arbitrary: ys)
  case Nil
  then show ?case by simp
next
  case (Cons x xs)
  then show ?case by (auto split: sum.splits)
qed

lemma mapNOAAFeature_type:
  "mapNOAAFeature f = Inr d \<Longrightarrow>
     disasterType d = resolveDisasterType noaaEventToDisasterType (event f)"
  by (auto simp: mapNOAAFeature_def Let_def split: sum.splits prod.splits)

section \<open>What the severity computations and the location filter return\<close>

lemmas thresholds =
  WIND_WARNING_THRESHOLD_def WIND_WATCH_THRESHOLD_def
  RAIN_WARNING_THRESHOLD_def RAIN_WATCH_THRESHOLD_def

lemma currentAlertType_lowered:
  "wind_speed data \<ge> 17.2 \<Longrightarrow> 25 \<le> rain3h data \<Longrightarrow> rain3h data < 50 \<Longrightarrow>
     currentAlertType data = Watch"
  by (auto simp: currentAlertType_def rain3h_def thresholds split: option.splits prod.splits)

lemma currentAlertType_max_elsewhere:
  "\<not> (wind_speed data \<ge> 17.2 \<and> 25 \<le> rain3h data \<and> rain3h data < 50) \<Longrightarrow>
     currentAlertType data = maxLevel (windLevel (wind_speed data)) (rainLevel (rain3h data))"
  by (auto simp: currentAlertType_def rain3h_def windLevel_def rainLevel_def maxLevel_def
      thresholds split: option.splits prod.splits)

lemma conditionsAlertType_eq:
  "conditionsAlertType data =
     (if (case hourly data of None \<Rightarrow> False | Some hours \<Rightarrow> list_ex isHeavyRainHour (take 12 hours))
      then Watch else windLevel (current_wind_speed data))"
  by (auto simp: conditionsAlertType_def windLevel_def thresholds split: option.splits)

lemma withinRadius_iff:
  "withinRadius m qlat qlon r d \<longleftrightarrow>
     (\<exists>x y dist. latitude d = NumText x \<and> longitude d = NumText y \<and>
                 calculateDistance m qlat qlon x y = Some dist \<and> dist \<le> r)"
  by (auto simp: withinRadius_def parseFloat_def split: num_text.splits option.splits)

lemma filterByLocation_nonzero:
  "opt_latitude opts = Some qlat \<Longrightarrow> opt_longitude opts = Some qlon \<Longrightarrow> radius opts = Some r \<Longrightarrow>
   qlat \<noteq> 0 \<Longrightarrow> qlon \<noteq> 0 \<Longrightarrow> r \<noteq> 0 \<Longrightarrow>
     filterByLocation m opts ds = filter (withinRadius m qlat qlon r) ds"
  by (simp add: filterByLocation_def truthy_def)

text \<open>
  Every event of the weather-alert adapter has a non-empty latitude and longitude text,
  and a feature without geometry, or with a geometry of an unrecognised type, is mapped
  to an event at latitude 0, longitude 0.
\<close>

lemma mapNOAAFeature_coordinates_set:
  "mapNOAAFeature f = Inr d \<Longrightarrow> latitude d \<noteq> EmptyText \<and> longitude d \<noteq> EmptyText"
  by (auto simp: mapNOAAFeature_def extractCoordinates_def ringCentroid_def Let_def
      split: sum.splits option.splits geometry.splits list.splits if_splits)

lemma mapNOAAFeature_default_coordinates:
  assumes "geometry f = None \<or> geometry f = Some (OtherGeometry t)"
  shows "\<exists>d. mapNOAAFeature f = Inr d \<and> latitude d = NumText 0 \<and> longitude d = NumText 0"
proof -
  from assms have "extractCoordinates (geometry f) = Inr (NumText 0, NumText 0)"
    by (auto simp: extractCoordinates_def)
  then show ?thesis by (simp add: mapNOAAFeature_def Let_def)
qed

section \<open>Evaluation of the aggregator\<close>

lemma no_alerts_mapped:
  "mapNOAAResponseToDisasters_json (noaa_json \<lparr> noaa_features = [] \<rparr>) = Inr []"
  by (simp add: mapNOAAResponseToDisasters_json_def noaa_json_def)

lemma no_features_raises:
  "mapNOAAResponseToDisasters_json \<lparr> noaa_features_json = None \<rparr> = Inl TypeError"
  by (simp add: mapNOAAResponseToDisasters_json_def)

lemma red_flag_alert_mapped: "mapNOAAFeature red_flag_alert = Inr red_flag_event"
  by code_simp

lemma red_flag_response_mapped:
  "mapNOAAResponseToDisasters_json (noaa_json \<lparr> noaa_features = [red_flag_alert] \<rparr>) =
     Inr [red_flag_event]"
  by code_simp

lemma red_flag_without_severity_mapped:
  "mapNOAAResponseToDisasters_json \<lparr> noaa_features_json = Some [red_flag_without_severity] \<rparr> =
     Inr [red_flag_advisory]"
  by code_simp


lemma sample_alerts_mapped: "mapNOAAResponseToDisasters sample_alerts = Inr sample_alert_events"
  by code_simp

lemmas aggregator_defs =
  getAllDisasters_def requestedTimeRange_def mapTimeRangeToValue_def
  fetchEarthquakeData_def usgsEndpoint_def fetchWeatherAlerts_def fetchWeatherOneCall_def
  get_then_def OWM_API_KEY_def truthy_def
  filterByTypes_def filterByAlertTypes_def filterByLocation_def
  mapUSGSResponseToDisasters_json_def mapUSGSFeature_json_def usgs_json_def usgs_feature_json_def
  MAGNITUDE_WARNING_THRESHOLD_def MAGNITUDE_WATCH_THRESHOLD_def
  no_alerts_mapped no_features_raises red_flag_response_mapped red_flag_without_severity_mapped
  processWeatherAlerts_json_def mapOWMAlert_json_def analyzeWeatherConditions_json_def
  onecall_json_def toLowerCase_def lower_char_def

lemmas sample_defs =
  sample_world_def seismic_down_world_def seismic_without_magnitude_world_def
  seismic_without_depth_world_def alerts_malformed_world_def alerts_without_severity_world_def
  weather_down_world_def weather_without_current_world_def keyless_world_def alert_only_world_def
  query_def origin_quake_def origin_quake_event_def flood_alert_event_def
  quake_without_depth_def quake_without_magnitude_def

section \<open>When the two throwing fetches fail\<close>





section \<open>The claims\<close>

text \<open>
  C1. The claim: the level of a current-conditions event is the maximum of the wind
  level and the rain level, so the rain rule never lowers what the wind rule gave.
  \<open>analyzeCurrentWeather\<close> assigns the rain level after the wind level without comparing
  them. At wind 17.2 m/s and 30 mm in 3 hours the wind alone gives Warning (rank 2), the
  rain alone gives Watch (rank 1), and the emitted event is a Watch.
\<close>

theorem C1_rain_watch_overrides_wind_warning:
  "analyzeCurrentWeather gale_with_moderate_rain =
     [\<lparr> disasterType = Flood, alertType = Watch, location = ''Tokyo, JP'',
        latitude = NumText 35, longitude = NumText 139, source = ''OpenWeatherMap'' \<rparr>]
   \<and> severityRank (currentAlertType (gale_with_moderate_rain \<lparr> rain := None \<rparr>)) = 2
   \<and> severityRank (currentAlertType (gale_with_moderate_rain \<lparr> wind_speed := 0 \<rparr>)) = 1
   \<and> severityRank (currentAlertType gale_with_moderate_rain) = 1"
  by (simp add: analyzeCurrentWeather_def gale_with_moderate_rain_def SEVERE_WEATHER_CODES_def
      currentAlertType_def getSevereWeatherType_def thresholds)




text \<open>
  C3. The claim: a forecast hour with at least 25/3 mm of rain raises the event to at
  least Watch and leaves a Warning from the wind rule in place.
  \<open>analyzeWeatherConditions\<close> assigns Watch whenever such an hour exists. At wind
  17.2 m/s with 10 mm forecast the wind rule alone gives Warning, and the emitted event
  is a Watch.
\<close>

theorem C3_forecast_rain_overrides_wind_warning:
  "analyzeWeatherConditions gale_with_rain_forecast =
     [\<lparr> disasterType = Flood, alertType = Watch, location = ''Asia, Tokyo'',
        latitude = NumText 35, longitude = NumText 139, source = ''OpenWeatherMap'' \<rparr>]
   \<and> conditionsAlertType (gale_with_rain_forecast \<lparr> hourly := None \<rparr>) = Warning"
  by (simp add: analyzeWeatherConditions_def gale_with_rain_forecast_def SEVERE_WEATHER_CODES_def
      conditionsAlertType_def getSevereWeatherType_def isHeavyRainHour_def timezoneLocation_def
      thresholds)

text \<open>
  C4. The claim: with latitude, longitude and radius supplied, only events within the
  radius are returned; an event at (0, 0) is excluded for the centre (0, 0.1) and radius
  10. In exact arithmetic the distance between the two points is 6371 * pi / 1800 km,
  above 10, and the filter callback rejects the event for radius 10 (and accepts it for
  radius 15). But \<open>getAllDisasters\<close> tests the query latitude 0 by truthiness, skips the
  location filter, and returns the event, whatever the arithmetic of the platform.
\<close>

theorem C4_equator_query_not_filtered:
  "calculateDistance exact_arithmetic 0 (1 / 10) 0 0 = Some (6371 * pi / 1800)
   \<and> 10 < 6371 * pi / 1800
   \<and> \<not> withinRadius exact_arithmetic 0 (1 / 10) 10 origin_quake_event
   \<and> withinRadius exact_arithmetic 0 (1 / 10) 15 origin_quake_event
   \<and> getAllDisasters sample_world (query 0 (1 / 10) (Some 10)) = Inr [origin_quake_event]
   \<and> getAllDisasters (sample_world \<lparr> arith := m \<rparr>) (query 0 (1 / 10) (Some 10)) =
       Inr [origin_quake_event]"
proof -
  have "getAllDisasters sample_world (query 0 (1 / 10) (Some 10)) = Inr [origin_quake_event]"
    by (simp add: aggregator_defs sample_defs)
  moreover have "getAllDisasters (sample_world \<lparr> arith := m \<rparr>) (query 0 (1 / 10) (Some 10)) =
       Inr [origin_quake_event]"
    by (simp add: aggregator_defs sample_defs)
  moreover have "\<not> withinRadius exact_arithmetic 0 (1 / 10) 10 origin_quake_event"
    using tenth_degree_bounds
    by (simp add: withinRadius_def parseFloat_def origin_quake_event_def distance_tenth_degree)
  moreover have "withinRadius exact_arithmetic 0 (1 / 10) 15 origin_quake_event"
    using tenth_degree_bounds
    by (simp add: withinRadius_def parseFloat_def origin_quake_event_def distance_tenth_degree)
  ultimately show ?thesis using tenth_degree_bounds distance_tenth_degree by simp
qed

text \<open>
  C5. \<open>getAllDisasters\<close> tests its numeric options by truthiness: a latitude, a longitude
  or a radius of exactly 0 gives the result the call has with that option absent. When
  the latitude or the longitude is 0 the result is the concatenation of the seismic and
  weather-alert events filtered by type and alert type only: the weather-condition feed
  does not contribute and the location filter is not applied, whatever the radius.
\<close>

theorem C5_zero_is_absent:
  "(opt_latitude opts = Some 0 \<longrightarrow>
      getAllDisasters w opts = getAllDisasters w (opts \<lparr> opt_latitude := None \<rparr>))
   \<and> (opt_longitude opts = Some 0 \<longrightarrow>
      getAllDisasters w opts = getAllDisasters w (opts \<lparr> opt_longitude := None \<rparr>))
   \<and> (radius opts = Some 0 \<longrightarrow>
      getAllDisasters w opts = getAllDisasters w (opts \<lparr> radius := None \<rparr>))
   \<and> (opt_latitude opts = Some 0 \<or> opt_longitude opts = Some 0 \<longrightarrow>
      getAllDisasters w opts =
        (case fetchEarthquakeData w (requestedTimeRange opts) of
           Inl e \<Rightarrow> Inl (Error ''Failed to fetch disaster data'')
         | Inr earthquakes \<Rightarrow>
             (case fetchWeatherAlerts w None of
                Inl e \<Rightarrow> Inl (Error ''Failed to fetch disaster data'')
              | Inr weatherAlerts \<Rightarrow>
                  Inr (filterByAlertTypes opts (filterByTypes opts (earthquakes @ weatherAlerts))))))"
  by (auto simp: getAllDisasters_def requestedTimeRange_def filterByLocation_def
      filterByTypes_def filterByAlertTypes_def truthy_def split: sum.splits)

theorem C5_zero_is_absent_witness:
  "getAllDisasters sample_world (query 0 (1 / 10) (Some 10)) =
     getAllDisasters sample_world (query 0 (1 / 10) (Some 10) \<lparr> opt_latitude := None \<rparr>)
   \<and> getAllDisasters sample_world (query 0 (1 / 10) (Some 10)) = Inr [origin_quake_event]
   \<and> getAllDisasters sample_world (query 50 0 (Some 10)) =
     getAllDisasters sample_world (query 50 0 (Some 10) \<lparr> opt_longitude := None \<rparr>)
   \<and> getAllDisasters sample_world (query 50 0 (Some 10)) = Inr [origin_quake_event]
   \<and> getAllDisasters sample_world (query 35 139 (Some 0)) =
     getAllDisasters sample_world (query 35 139 None)
   \<and> getAllDisasters sample_world (query 35 139 (Some 0)) =
     Inr [origin_quake_event, flood_alert_event 35 139]"
proof -
  have a: "opt_latitude (query 0 (1 / 10) (Some 10)) = Some 0" by (simp add: query_def)
  have b: "opt_longitude (query 50 0 (Some 10)) = Some 0" by (simp add: query_def)
  have c: "radius (query 35 139 (Some 0)) = Some 0" by (simp add: query_def)
  have r: "query 35 139 (Some 0) \<lparr> radius := None \<rparr> = query 35 139 None" by (simp add: query_def)
  have e1: "getAllDisasters sample_world (query 0 (1 / 10) (Some 10)) = Inr [origin_quake_event]"
    by (simp add: aggregator_defs sample_defs)
  have e2: "getAllDisasters sample_world (query 50 0 (Some 10)) = Inr [origin_quake_event]"
    by (simp add: aggregator_defs sample_defs)
  have e3: "getAllDisasters sample_world (query 35 139 (Some 0)) =
     Inr [origin_quake_event, flood_alert_event 35 139]"
    by (simp add: aggregator_defs sample_defs)
  from C5_zero_is_absent [of "query 0 (1 / 10) (Some 10)" sample_world]
       C5_zero_is_absent [of "query 50 0 (Some 10)" sample_world]
       C5_zero_is_absent [of "query 35 139 (Some 0)" sample_world]
       a b c r e1 e2 e3
  show ?thesis by simp
qed

text \<open>
  C6. Every seismic feature is mapped to one event whose level is Warning for a magnitude
  of at least 5, Watch from 4 up to 5, Advisory below 4; the two thresholds belong to
  the upper class: 5.0 is a Warning, 4.9999 and 4.0 are Watches, 3.9999 and 0 are
  Advisories.
\<close>

theorem C6_seismic_classification:
  "map alertType (mapUSGSResponseToDisasters d) =
     map (\<lambda>f. if mag f \<ge> 5 then Warning
               else if 4 \<le> mag f \<and> mag f < 5 then Watch
               else Advisory) (usgs_features d)
   \<and> alertType (mapUSGSFeature (f \<lparr> mag := 5.0 \<rparr>)) = Warning
   \<and> alertType (mapUSGSFeature (f \<lparr> mag := 4.9999 \<rparr>)) = Watch
   \<and> alertType (mapUSGSFeature (f \<lparr> mag := 4.0 \<rparr>)) = Watch
   \<and> alertType (mapUSGSFeature (f \<lparr> mag := 3.9999 \<rparr>)) = Advisory
   \<and> alertType (mapUSGSFeature (f \<lparr> mag := 0 \<rparr>)) = Advisory"
  by (simp add: mapUSGSResponseToDisasters_def mapUSGSFeature_def
      MAGNITUDE_WARNING_THRESHOLD_def MAGNITUDE_WATCH_THRESHOLD_def split: prod.splits)

text \<open>
  C7. Whenever the mapping of a weather-alert response returns, its events are, in
  order, those of the features whose event name contains some lexicon key ignoring
  case (all other features are dropped), and the type of each event is the value of the
  first key, in declaration order, that its feature's event name contains.
\<close>

theorem C7_lexicon_filter:
  assumes "mapNOAAResponseToDisasters data = Inr ds"
  shows "list_all2 (\<lambda>d f. firstMatchingValue (event f) (disasterType d)) ds
           (filter (\<lambda>f. \<exists>key \<in> set (map fst noaaEventToDisasterType).
                          containsIgnoringCase (event f) key)
              (noaa_features data))"
proof -
  let ?kept = "filter isRelevantEvent (noaa_features data)"
  have eq: "filter (\<lambda>f. \<exists>key \<in> set (map fst noaaEventToDisasterType).
                          containsIgnoringCase (event f) key) (noaa_features data) = ?kept"
    by (rule filter_cong) (simp_all only: isRelevantEvent_iff)
  have all: "list_all2 (\<lambda>d f. mapNOAAFeature f = Inr d) ds ?kept"
    using assms map_exn_Inr[of mapNOAAFeature ?kept ds]
    by (simp add: mapNOAAResponseToDisasters_def)
  have "list_all2 (\<lambda>d f. firstMatchingValue (event f) (disasterType d)) ds ?kept"
  proof (rule list.rel_mono_strong[OF all])
    fix d f
    assume "d \<in> set ds" and f: "f \<in> set ?kept" and m: "mapNOAAFeature f = Inr d"
    from f have "isRelevantEvent f" by simp
    then have "list_ex (\<lambda>key. eventMatches (event f) key) (map fst noaaEventToDisasterType)"
      by (simp add: isRelevantEvent_def)
    from resolveDisasterType_first[OF this] mapNOAAFeature_type[OF m]
    show "firstMatchingValue (event f) (disasterType d)"
      unfolding firstMatchingValue_def eventMatches_iff by auto
  qed
  with eq show ?thesis by simp
qed

theorem C7_lexicon_filter_witness:
  "mapNOAAResponseToDisasters sample_alerts = Inr sample_alert_events
   \<and> list_all2 (\<lambda>d f. firstMatchingValue (event f) (disasterType d)) sample_alert_events
           (filter (\<lambda>f. \<exists>key \<in> set (map fst noaaEventToDisasterType).
                          containsIgnoringCase (event f) key)
              (noaa_features sample_alerts))
   \<and> map disasterType sample_alert_events = [Flood, Wildfire]"
  using C7_lexicon_filter[OF sample_alerts_mapped] sample_alerts_mapped
  by (simp add: sample_alert_events_def)

text \<open>
  C8. The claim: an alert without geometry gets the coordinates (0, 0), and a radius
  query retains it exactly when (0, 0) lies within the radius. The first part holds:
  the alert is mapped to an event at latitude 0, longitude 0. The second fails at a
  query centre on the equator: for the centre (0, 0.1) and radius 10 the point (0, 0) is
  6371 * pi / 1800 km away in exact arithmetic, above 10, and the filter callback rejects
  the event, but \<open>getAllDisasters\<close> tests the query latitude 0 by truthiness, skips the
  location filter, and returns the event, whatever the arithmetic of the platform.
\<close>

theorem C8_default_event_kept_outside_radius:
  "geometry red_flag_alert = None
   \<and> mapNOAAFeature red_flag_alert = Inr red_flag_event
   \<and> latitude red_flag_event = NumText 0
   \<and> longitude red_flag_event = NumText 0
   \<and> calculateDistance exact_arithmetic 0 (1 / 10) 0 0 = Some (6371 * pi / 1800)
   \<and> 10 < 6371 * pi / 1800
   \<and> \<not> withinRadius exact_arithmetic 0 (1 / 10) 10 red_flag_event
   \<and> getAllDisasters alert_only_world (query 0 (1 / 10) (Some 10)) = Inr [red_flag_event]
   \<and> getAllDisasters (alert_only_world \<lparr> arith := m \<rparr>) (query 0 (1 / 10) (Some 10)) =
       Inr [red_flag_event]"
proof -
  have "getAllDisasters alert_only_world (query 0 (1 / 10) (Some 10)) = Inr [red_flag_event]"
    by (simp add: aggregator_defs sample_defs)
  moreover have "getAllDisasters (alert_only_world \<lparr> arith := m \<rparr>) (query 0 (1 / 10) (Some 10)) =
       Inr [red_flag_event]"
    by (simp add: aggregator_defs sample_defs)
  moreover have "\<not> withinRadius exact_arithmetic 0 (1 / 10) 10 red_flag_event"
    using tenth_degree_bounds
    by (simp add: withinRadius_def parseFloat_def red_flag_event_def distance_tenth_degree)
  ultimately show ?thesis
    using tenth_degree_bounds distance_tenth_degree red_flag_alert_mapped
    by (simp add: red_flag_alert_def red_flag_event_def)
qed

text \<open>
  C9. When neither environment variable holds a non-empty key, \<open>fetchCurrentWeather\<close> and
  \<open>fetchWeatherOneCall\<close> return the empty list, without raising, at every latitude and
  longitude and whatever the feed would answer.
\<close>

theorem C9_missing_api_key:
  assumes "env_OPENWEATHERMAP_API_KEY w = None \<or> env_OPENWEATHERMAP_API_KEY w = Some []"
    and "env_OWM_API_KEY w = None \<or> env_OWM_API_KEY w = Some []"
  shows "fetchCurrentWeather w lt lng = Inr [] \<and> fetchWeatherOneCall w lt lng = Inr []"
proof -
  have "OWM_API_KEY w = []"
    using assms by (auto simp: OWM_API_KEY_def)
  then show ?thesis
    by (simp add: fetchCurrentWeather_def fetchWeatherOneCall_def)
qed

theorem C9_missing_api_key_witness:
  "env_OPENWEATHERMAP_API_KEY keyless_world = Some []
   \<and> env_OWM_API_KEY keyless_world = None
   \<and> fetchCurrentWeather keyless_world 35 139 = Inr []
   \<and> fetchWeatherOneCall keyless_world 35 139 = Inr []
   \<and> fetchWeatherOneCall sample_world 35 139 = Inr [flood_alert_event 35 139]"
proof -
  have k1: "env_OPENWEATHERMAP_API_KEY keyless_world = None \<or>
            env_OPENWEATHERMAP_API_KEY keyless_world = Some []"
    by (simp add: sample_defs)
  have k2: "env_OWM_API_KEY keyless_world = None \<or> env_OWM_API_KEY keyless_world = Some []"
    by (simp add: sample_defs)
  have "fetchWeatherOneCall sample_world 35 139 = Inr [flood_alert_event 35 139]"
    by (simp add: aggregator_defs sample_defs)
  then show ?thesis
    using C9_missing_api_key [OF k1 k2, of 35 139] by (simp add: sample_defs)
qed

end
